theory Spec2Isabelle
  imports Main
begin

section \<open>Build settings of the ha4detr extension (setup\_settings.py)\<close>

text \<open>
  The module \<^verbatim>\<open>src/trackformer/models/ops/setup_settings.py\<close> decides whether the
  CUDA extension can be built on the host and assembles the list of extension objects
  handed to \<^verbatim>\<open>setup()\<close>. Everything it reads from outside (the platform name, the
  torch installation, the environment variables, the file system, pathlib and the
  \<^verbatim>\<open>nvcc --version\<close> subprocess) is collected in one record, the host; the
  verifier \<^verbatim>\<open>_verify_cuda_environment\<close> and the resolver \<^verbatim>\<open>get_extensions_settings\<close>
  are functions of that record. What \<^verbatim>\<open>print\<close> writes is returned as a list of
  lines, an exception as the left summand of the result.

  Python is taken in its default mode, where \<^verbatim>\<open>assert\<close> statements are executed.
\<close>

subsection \<open>Printed output\<close>

text \<open>
  A printed line is a sequence of pieces: literal text, or a value that an f-string
  formats through \<^verbatim>\<open>repr\<close> (as \<^verbatim>\<open>f"{x=}"\<close> does, and as \<^verbatim>\<open>str\<close> of a list does for
  its elements). The values so formatted are \<^verbatim>\<open>None\<close>, a string, or a list of strings.
\<close>

datatype pyval = VNone | VStr string | VList "string list"

datatype piece = S string | R pyval

type_synonym line = "piece list"

definition of_opt :: "string option \<Rightarrow> pyval" where
  "of_opt v = (case v of None \<Rightarrow> VNone | Some s \<Rightarrow> VStr s)"

subsection \<open>The host\<close>

text \<open>
  \<open>'p\<close> is the type of \<^verbatim>\<open>pathlib.Path\<close> objects. \<open>os_popen_read\<close> is
  \<^verbatim>\<open>os.popen(cmd).read()\<close>, with \<open>None\<close> when the call raises an \<^verbatim>\<open>Exception\<close>.
  \<open>torch_importable\<close> says whether \<^verbatim>\<open>torch\<close> and \<^verbatim>\<open>torch.utils.cpp_extension\<close>
  can be imported. \<open>library_paths_device_type\<close> and \<open>library_paths_cuda\<close> are
  the two keyword forms in which the module calls torch's \<^verbatim>\<open>library_paths\<close>.
  The queries of torch, pathlib and the file system are taken to return normally; the
  failures that the module itself provides for (the import, the subprocess) are part of
  the host.
\<close>

record 'p host =
  platform_system :: string
  torch_importable :: bool
  torch_cuda_is_available :: bool
  torch_backends_cuda_is_built :: bool
  torch_version_cuda :: "string option"
  torch_CUDA_HOME :: "string option"
  os_environ :: "string \<Rightarrow> string option"
  include_paths :: "string list"
  library_paths_device_type :: "string \<Rightarrow> string list"
  library_paths_cuda :: "bool \<Rightarrow> string list"
  file_parent :: 'p
  Path_of :: "string \<Rightarrow> 'p"
  path_join :: "'p \<Rightarrow> string \<Rightarrow> 'p"
  path_str :: "'p \<Rightarrow> string"
  path_exists :: "'p \<Rightarrow> bool"
  path_glob :: "'p \<Rightarrow> string \<Rightarrow> 'p list"
  path_resolve :: "'p \<Rightarrow> 'p"
  os_path_relpath :: "'p \<Rightarrow> 'p \<Rightarrow> string"
  os_popen_read :: "string \<Rightarrow> string option"

subsection \<open>Python primitives\<close>

text \<open>Truthiness of an optional string: \<^verbatim>\<open>None\<close> and \<^verbatim>\<open>""\<close> are false.\<close>

definition truthy :: "string option \<Rightarrow> bool" where
  "truthy v = (case v of None \<Rightarrow> False | Some s \<Rightarrow> s \<noteq> [])"

text \<open>\<^verbatim>\<open>a or b\<close>: the left operand when it is truthy, the right one otherwise.\<close>

definition py_or :: "string option \<Rightarrow> string option \<Rightarrow> string option" where
  "py_or a b = (if truthy a then a else b)"

fun starts_with :: "string \<Rightarrow> string \<Rightarrow> bool" where
  "starts_with [] ys = True"
| "starts_with (x # xs) [] = False"
| "starts_with (x # xs) (y # ys) = (x = y \<and> starts_with xs ys)"

text \<open>\<^verbatim>\<open>a in b\<close> on strings: \<open>a\<close> occurs in \<open>b\<close> as a contiguous substring.\<close>

fun py_in :: "string \<Rightarrow> string \<Rightarrow> bool" where
  "py_in xs [] = (xs = [])"
| "py_in xs (y # ys) = (starts_with xs (y # ys) \<or> py_in xs ys)"

text \<open>\<^verbatim>\<open>s.split(".")[0]\<close>: the text before the first dot, all of \<open>s\<close> when there is none.\<close>

definition split_dot_first :: "string \<Rightarrow> string" where
  "split_dot_first s = takeWhile (\<lambda>c. c \<noteq> CHR ''.'') s"

text \<open>\<^verbatim>\<open>s.lower()\<close>, on the ASCII letters.\<close>

definition lower_char :: "char \<Rightarrow> char" where
  "lower_char c =
     (let n = (of_char c :: nat) in if 65 \<le> n \<and> n \<le> 90 then char_of (n + 32) else c)"

definition lower :: "string \<Rightarrow> string" where
  "lower s = map lower_char s"

subsection \<open>Module constants\<close>

definition IS_WINDOWS_BUILD :: "'p host \<Rightarrow> bool" where
  "IS_WINDOWS_BUILD h = (platform_system h = ''Windows'')"

definition ROOT :: "'p host \<Rightarrow> 'p" where
  "ROOT h = file_parent h"

definition SRC :: "'p host \<Rightarrow> 'p" where
  "SRC h = path_join h (ROOT h) ''src''"

definition SRC_BASE :: "'p host \<Rightarrow> 'p" where
  "SRC_BASE h = path_join h (SRC h) ''ha4detr''"

definition SRC_CPU :: "'p host \<Rightarrow> 'p" where
  "SRC_CPU h = path_join h (SRC_BASE h) ''cpu''"

definition SRC_CUDA :: "'p host \<Rightarrow> 'p" where
  "SRC_CUDA h = path_join h (SRC_BASE h) ''cuda''"

definition rel :: "'p host \<Rightarrow> 'p \<Rightarrow> string" where
  "rel h p = os_path_relpath h p (ROOT h)"

subsection \<open>The verifier\<close>

definition msg_unsupported_platform :: "string \<Rightarrow> line" where
  "msg_unsupported_platform system =
     [S (''Unsupported platform '' @ [CHR 0x27] @ system @ [CHR 0x27]
         @ '' to build this on with CUDA support. ''
         @ ''ha4detr only supports building on Windows or Linux with CUDA.'')]"

definition msg_no_torch :: line where
  "msg_no_torch = [S ''PyTorch must be installed BEFORE building ha4detr.'']"

definition msg_cuda_unavailable :: line where
  "msg_cuda_unavailable =
     [S (''PyTorch reports that CUDA is NOT available on this system. ''
         @ ''Cannot build CUDA extension.'')]"

definition msg_not_built :: line where
  "msg_not_built =
     [S (''Your PyTorch build was compiled WITHOUT CUDA. ''
         @ ''Install a CUDA-enabled PyTorch distribution.'')]"

definition msg_no_version :: line where
  "msg_no_version =
     [S (''Torch does not expose a valid CUDA version (torch.version.cuda). ''
         @ ''Cannot safely build.'')]"

definition msg_no_cuda_home :: line where
  "msg_no_cuda_home =
     [S (''CUDA_HOME / CUDA_PATH is not set. ''
         @ ''Please set it to your local CUDA toolkit path.'')]"

definition msg_nvcc_not_found :: "string \<Rightarrow> line list" where
  "msg_nvcc_not_found nvcc =
     [[S (''nvcc not found at expected path: '' @ nvcc)],
      [S ''Your CUDA installation is incomplete or incorrect.'']]"

definition msg_version_mismatch :: "string \<Rightarrow> string \<Rightarrow> line list" where
  "msg_version_mismatch torch_cuda system_nvcc_output =
     [[S ''*************************************************************''],
      [S ''* WARNING: CUDA version mismatch between PyTorch and system *''],
      [S ''* This may still work, but is not guaranteed.               *''],
      [S (''* Torch CUDA: '' @ torch_cuda)],
      [S (''* nvcc --version output: '' @ system_nvcc_output)],
      [S ''*************************************************************'']]"

definition msg_ok :: line where
  "msg_ok = [S ''CUDA environment OK'']"

text \<open>Line 69: the toolkit home, from the two environment variables and torch's default.\<close>

definition cuda_home_of :: "'p host \<Rightarrow> string option" where
  "cuda_home_of h =
     py_or (os_environ h ''CUDA_HOME'') (py_or (os_environ h ''CUDA_PATH'') (torch_CUDA_HOME h))"

text \<open>Lines 77-78: the path at which the compiler is expected.\<close>

definition exe_postfix :: "'p host \<Rightarrow> string" where
  "exe_postfix h = (if IS_WINDOWS_BUILD h then ''nvcc.exe'' else ''nvcc'')"

definition nvcc_path :: "'p host \<Rightarrow> string \<Rightarrow> 'p" where
  "nvcc_path h cuda_home = path_join h (path_join h (Path_of h cuda_home) ''bin'') (exe_postfix h)"

text \<open>Lines 86-98: the version comparison, which only prints.\<close>

definition system_nvcc_output_of :: "'p host \<Rightarrow> 'p \<Rightarrow> string" where
  "system_nvcc_output_of h nvcc =
     (case os_popen_read h ([CHR 0x22] @ path_str h nvcc @ [CHR 0x22] @ '' --version'') of
        None \<Rightarrow> []
      | Some out \<Rightarrow> lower out)"

definition version_check :: "'p host \<Rightarrow> string \<Rightarrow> 'p \<Rightarrow> line list" where
  "version_check h torch_cuda nvcc =
     (let torch_major = split_dot_first torch_cuda;
          system_nvcc_output = system_nvcc_output_of h nvcc
      in if \<not> py_in torch_major system_nvcc_output
         then msg_version_mismatch torch_cuda system_nvcc_output
         else [])"

text \<open>
  \<^verbatim>\<open>_verify_cuda_environment\<close>: the verdict and the lines printed on the way to it.
\<close>

definition verify_cuda_environment :: "'p host \<Rightarrow> bool \<times> line list" where
  "verify_cuda_environment h =
     (let system = platform_system h in
      if system \<notin> set [''Windows'', ''Linux''] then (True, [msg_unsupported_platform system])
      else if \<not> torch_importable h then (False, [msg_no_torch])
      else if \<not> torch_cuda_is_available h then (False, [msg_cuda_unavailable])
      else if \<not> torch_backends_cuda_is_built h then (False, [msg_not_built])
      else
        (case torch_version_cuda h of
           None \<Rightarrow> (False, [msg_no_version])
         | Some torch_cuda \<Rightarrow>
             if torch_cuda = [] then (False, [msg_no_version])
             else
               (case cuda_home_of h of
                  None \<Rightarrow> (False, [msg_no_cuda_home])
                | Some cuda_home \<Rightarrow>
                    if cuda_home = [] then (False, [msg_no_cuda_home])
                    else
                      (let nvcc = nvcc_path h cuda_home in
                       if \<not> path_exists h nvcc
                       then (False, msg_nvcc_not_found (path_str h nvcc))
                       else (True, version_check h torch_cuda nvcc @ [msg_ok])))))"

subsection \<open>The extension objects\<close>

text \<open>
  The objects that \<^verbatim>\<open>CUDAExtension(...)\<close> and \<^verbatim>\<open>CppExtension(...)\<close> are called to
  build, as the keyword arguments they are given; a keyword that is not passed is
  \<open>None\<close>. An element of \<^verbatim>\<open>include_dirs\<close> is a string or, where the module puts a
  whole list into the list, a list of strings. \<^verbatim>\<open>extra_compile_args\<close> is a dict,
  kept in the order of its keys.
\<close>

datatype error = ImportError | AssertionError string | AttributeError string

datatype ext_class = CUDAExtension | CppExtension

datatype include_entry = Dir string | Dirs "string list"

record extension =
  cls :: ext_class
  name :: string
  sources :: "string list"
  include_dirs :: "include_entry list"
  library_dirs :: "string list option"
  extra_link_args :: "string list option"
  extra_compile_args :: "(string \<times> string list) list"

subsection \<open>The resolver\<close>

definition assert_message :: string where
  "assert_message =
     ''You cannot run this build on this system - you would need to update it to match requirement!''"

text \<open>\<^verbatim>\<open>_debug_print\<close> (lines 121-129).\<close>

definition debug_print :: "'p host \<Rightarrow> line list" where
  "debug_print h =
     (let cuda_home = py_or (os_environ h ''CUDA_HOME'') (os_environ h ''CUDA_PATH'') in
      [[S (replicate 40 CHR ''*'')],
       [S ''CUDA_HOME='', R (of_opt (torch_CUDA_HOME h)), S '', cuda_home='', R (of_opt cuda_home)],
       [S (''os.getenv('' @ [CHR 0x27] @ ''CUDA_HOME'' @ [CHR 0x27] @ '')=''),
        R (of_opt (os_environ h ''CUDA_HOME''))],
       [S ''version.cuda='', R (of_opt (torch_version_cuda h))],
       [S (replicate 40 CHR ''*'')]])"

text \<open>\<^verbatim>\<open>_get_linux_settings\<close> (lines 131-156): the printed lines and the returned list.\<close>

definition get_linux_settings :: "'p host \<Rightarrow> string list \<Rightarrow> line list \<times> extension list" where
  "get_linux_settings h all_source_paths =
     (let local_includes = path_str h (SRC_BASE h);
          cuda_sources = all_source_paths;
          include_dirs = include_paths h;
          library_dirs = library_paths_device_type h ''cuda'';
          rpath = ''-Wl,-rpath,$ORIGIN/../torch/lib'';
          extra_link_args = [rpath];
          extra_args = [(''cxx'', [''-D_GLIBCXX_USE_CXX11_ABI=1'', ''-std=c++17'']),
                        (''nvcc'', [''-D_GLIBCXX_USE_CXX11_ABI=1'', ''-std=c++17''])]
      in ([[S (replicate 40 CHR ''='')],
           [S ''cuda_sources='', R (VList cuda_sources)],
           [S (replicate 40 CHR ''='')]],
          [\<lparr>cls = CUDAExtension,
            name = ''ha4detr._hungarian'',
            sources = cuda_sources,
            include_dirs = [Dir local_includes, Dirs include_dirs],
            library_dirs = Some library_dirs,
            extra_link_args = Some extra_link_args,
            extra_compile_args = extra_args\<rparr>]))"

text \<open>\<^verbatim>\<open>_get_windows_settings\<close> (lines 158-187).\<close>

definition get_windows_settings :: "'p host \<Rightarrow> string list \<Rightarrow> line list \<times> extension list" where
  "get_windows_settings h all_source_paths =
     (let extra_args = [(''cxx'', [''/std:c++17'', ''/Zc:__cplusplus'']),
                        (''nvcc'', [''-std=c++17'', ''-Xcompiler=/std:c++17'',
                                    ''-Xcompiler=/Zc:__cplusplus''])];
          torch_includes = include_paths h;
          local_include = path_str h (path_resolve h (SRC_BASE h));
          include_dirs = Dir local_include # map Dir torch_includes;
          library_dirs = library_paths_cuda h True
      in ([[S (replicate 40 CHR ''#'')],
           [S ''my sources for the build are '', R (VList all_source_paths)]],
          [\<lparr>cls = CUDAExtension,
            name = ''ha4detr._hungarian'',
            sources = all_source_paths,
            include_dirs = include_dirs,
            library_dirs = Some library_dirs,
            extra_link_args = None,
            extra_compile_args = extra_args\<rparr>]))"

text \<open>
  Line 205 calls \<^verbatim>\<open>p.relative_to(ROOT)\<close> on the elements of \<^verbatim>\<open>cpu_source_paths\<close>,
  which are the strings that \<^verbatim>\<open>rel\<close> returned. A \<^verbatim>\<open>str\<close> has no attribute
  \<^verbatim>\<open>relative_to\<close>, so the attribute lookup raises.
\<close>

definition attribute_error_message :: string where
  "attribute_error_message =
     [CHR 0x27] @ ''str'' @ [CHR 0x27] @ '' object has no attribute ''
       @ [CHR 0x27] @ ''relative_to'' @ [CHR 0x27]"

definition str_relative_to :: "string \<Rightarrow> 'p \<Rightarrow> error + string" where
  "str_relative_to p root = Inl (AttributeError attribute_error_message)"

text \<open>A list comprehension whose element expression may raise: the first error ends it.\<close>

fun comprehension :: "('a \<Rightarrow> error + 'b) \<Rightarrow> 'a list \<Rightarrow> error + 'b list" where
  "comprehension f [] = Inr []"
| "comprehension f (x # xs) =
     (case f x of
        Inl e \<Rightarrow> Inl e
      | Inr y \<Rightarrow> (case comprehension f xs of Inl e \<Rightarrow> Inl e | Inr ys \<Rightarrow> Inr (y # ys)))"

text \<open>The macOS branch (lines 199-211).\<close>

definition get_darwin_settings :: "'p host \<Rightarrow> string list \<Rightarrow> error + extension list" where
  "get_darwin_settings h cpu_source_paths =
     (let inc = [Dir (path_str h (SRC_BASE h))] in
      case comprehension (\<lambda>p. str_relative_to p (ROOT h)) cpu_source_paths of
        Inl e \<Rightarrow> Inl e
      | Inr srcs \<Rightarrow>
          Inr [\<lparr>cls = CppExtension,
                name = ''ha4detr._hungarian'',
                sources = srcs,
                include_dirs = inc,
                library_dirs = None,
                extra_link_args = None,
                extra_compile_args =
                  [(''cxx'', [''-D_GLIBCXX_USE_CXX11_ABI=1'', ''-std=c++17'']),
                   (''nvcc'', [''-D_GLIBCXX_USE_CXX11_ABI=1'', ''-std=c++17''])]\<rparr>])"

text \<open>
  \<^verbatim>\<open>get_extensions_settings\<close>: everything printed, and either the exception raised or
  the list returned.
\<close>

definition get_extensions_settings :: "'p host \<Rightarrow> line list \<times> (error + extension list)" where
  "get_extensions_settings h =
     (if \<not> torch_importable h then ([], Inl ImportError)
      else
        (let (ok, out0) = verify_cuda_environment h in
         if \<not> ok then (out0, Inl (AssertionError assert_message))
         else
           (let cpu_source_paths = map (rel h) (path_glob h (SRC_CPU h) ''*.cpp'');
                cuda_source_paths = map (rel h) (path_glob h (SRC_CUDA h) ''*.cu'');
                all_source_paths = cpu_source_paths @ cuda_source_paths;
                system = platform_system h;
                out1 = out0 @ debug_print h
            in if IS_WINDOWS_BUILD h then
                 (let (out2, exts) = get_windows_settings h all_source_paths in
                  (out1 @ [[S (replicate 40 CHR ''='')],
                           [S '' building for WINDOWS''],
                           [S (replicate 40 CHR ''='')]] @ out2,
                   Inr exts))
               else if system = ''Linux'' then
                 (let (out2, exts) = get_linux_settings h all_source_paths in
                  (out1 @ out2, Inr exts))
               else if system = ''Darwin'' then
                 (out1, get_darwin_settings h cpu_source_paths)
               else (out1, Inr []))))"

subsection \<open>Sample hosts\<close>

text \<open>
  A Linux host on which every check passes; paths are plain strings joined with a slash.
  Variants of it are obtained by record update.
\<close>

definition sample_host :: "string host" where
  "sample_host =
     \<lparr>platform_system = ''Linux'',
      torch_importable = True,
      torch_cuda_is_available = True,
      torch_backends_cuda_is_built = True,
      torch_version_cuda = Some ''12.1'',
      torch_CUDA_HOME = Some ''/usr/local/cuda'',
      os_environ = (\<lambda>k. None),
      include_paths = [''/torch/include'', ''/torch/include/torch/csrc/api/include''],
      library_paths_device_type = (\<lambda>d. if d = ''cuda'' then [''/torch/lib'', ''/usr/local/cuda/lib64'']
                                        else [''/torch/lib'']),
      library_paths_cuda = (\<lambda>c. if c then [''/torch/lib'', ''/usr/local/cuda/lib64'']
                                 else [''/torch/lib'']),
      file_parent = ''/repo/ops'',
      Path_of = (\<lambda>s. s),
      path_join = (\<lambda>p s. p @ ''/'' @ s),
      path_str = (\<lambda>p. p),
      path_exists = (\<lambda>p. p = ''/usr/local/cuda/bin/nvcc''),
      path_glob = (\<lambda>d pat.
         if d = ''/repo/ops/src/ha4detr/cpu'' \<and> pat = ''*.cpp''
         then [''/repo/ops/src/ha4detr/cpu/hungarian.cpp'']
         else if d = ''/repo/ops/src/ha4detr/cuda'' \<and> pat = ''*.cu''
         then [''/repo/ops/src/ha4detr/cuda/hungarian.cu'']
         else []),
      path_resolve = (\<lambda>p. p),
      os_path_relpath = (\<lambda>p start. drop (length start + 1) p),
      os_popen_read = (\<lambda>cmd. Some ''Cuda compilation tools, release 11.8, V11.8.89'')\<rparr>"

text \<open>Variants of the sample host: other platforms, environment overrides, no device.\<close>

definition darwin_host :: "string host" where
  "darwin_host = sample_host\<lparr>platform_system := ''Darwin'', path_glob := (\<lambda>d pat. [])\<rparr>"

definition darwin_cpp_host :: "string host" where
  "darwin_cpp_host = sample_host\<lparr>platform_system := ''Darwin''\<rparr>"

definition windows_host :: "string host" where
  "windows_host =
     sample_host\<lparr>platform_system := ''Windows'',
                  path_exists := (\<lambda>p. p = ''/usr/local/cuda/bin/nvcc.exe'')\<rparr>"

definition other_host :: "string host" where
  "other_host = sample_host\<lparr>platform_system := ''FreeBSD''\<rparr>"

definition no_device_host :: "string host" where
  "no_device_host = sample_host\<lparr>torch_cuda_is_available := False\<rparr>"

definition env_host :: "string host" where
  "env_host =
     sample_host\<lparr>os_environ := (\<lambda>k. if k = ''CUDA_HOME'' then Some ''/opt/cuda-home''
                                     else if k = ''CUDA_PATH'' then Some ''/opt/cuda-path''
                                     else None)\<rparr>"

definition env_path_host :: "string host" where
  "env_path_host =
     sample_host\<lparr>os_environ := (\<lambda>k. if k = ''CUDA_HOME'' then Some []
                                     else if k = ''CUDA_PATH'' then Some ''/opt/cuda-path''
                                     else None)\<rparr>"

lemmas host_defs = sample_host_def darwin_host_def windows_host_def

section \<open>Basic facts\<close>

subsection \<open>The verifier, check by check\<close>

lemma truthy_Some [simp]: "truthy (Some s) = (s \<noteq> [])"
  by (simp add: truthy_def)

lemma truthy_None [simp]: "\<not> truthy None"
  by (simp add: truthy_def)

lemma truthy_iff: "truthy v = (\<exists>s. v = Some s \<and> s \<noteq> [])"
  by (cases v) simp_all

lemma verify_unsupported:
  "platform_system h \<noteq> ''Windows'' \<Longrightarrow> platform_system h \<noteq> ''Linux'' \<Longrightarrow>
   verify_cuda_environment h = (True, [msg_unsupported_platform (platform_system h)])"
  by (simp add: verify_cuda_environment_def)

lemma verify_no_torch:
  "platform_system h = ''Windows'' \<or> platform_system h = ''Linux'' \<Longrightarrow> \<not> torch_importable h \<Longrightarrow>
   verify_cuda_environment h = (False, [msg_no_torch])"
  by (auto simp add: verify_cuda_environment_def)

lemma verify_cuda_unavailable:
  "platform_system h = ''Windows'' \<or> platform_system h = ''Linux'' \<Longrightarrow> torch_importable h \<Longrightarrow>
   \<not> torch_cuda_is_available h \<Longrightarrow>
   verify_cuda_environment h = (False, [msg_cuda_unavailable])"
  by (auto simp add: verify_cuda_environment_def)

lemma verify_not_built:
  "platform_system h = ''Windows'' \<or> platform_system h = ''Linux'' \<Longrightarrow> torch_importable h \<Longrightarrow>
   torch_cuda_is_available h \<Longrightarrow> \<not> torch_backends_cuda_is_built h \<Longrightarrow>
   verify_cuda_environment h = (False, [msg_not_built])"
  by (auto simp add: verify_cuda_environment_def)

lemma verify_no_version:
  "platform_system h = ''Windows'' \<or> platform_system h = ''Linux'' \<Longrightarrow> torch_importable h \<Longrightarrow>
   torch_cuda_is_available h \<Longrightarrow> torch_backends_cuda_is_built h \<Longrightarrow>
   \<not> truthy (torch_version_cuda h) \<Longrightarrow>
   verify_cuda_environment h = (False, [msg_no_version])"
  by (auto simp add: verify_cuda_environment_def truthy_def split: option.splits)

lemma verify_no_cuda_home:
  "platform_system h = ''Windows'' \<or> platform_system h = ''Linux'' \<Longrightarrow> torch_importable h \<Longrightarrow>
   torch_cuda_is_available h \<Longrightarrow> torch_backends_cuda_is_built h \<Longrightarrow>
   truthy (torch_version_cuda h) \<Longrightarrow> \<not> truthy (cuda_home_of h) \<Longrightarrow>
   verify_cuda_environment h = (False, [msg_no_cuda_home])"
  by (auto simp add: verify_cuda_environment_def truthy_def split: option.splits)

lemma verify_nvcc_missing:
  "platform_system h = ''Windows'' \<or> platform_system h = ''Linux'' \<Longrightarrow> torch_importable h \<Longrightarrow>
   torch_cuda_is_available h \<Longrightarrow> torch_backends_cuda_is_built h \<Longrightarrow>
   truthy (torch_version_cuda h) \<Longrightarrow> cuda_home_of h = Some c \<Longrightarrow> c \<noteq> [] \<Longrightarrow>
   \<not> path_exists h (nvcc_path h c) \<Longrightarrow>
   verify_cuda_environment h = (False, msg_nvcc_not_found (path_str h (nvcc_path h c)))"
  by (auto simp add: verify_cuda_environment_def truthy_def Let_def split: option.splits)

lemma verify_pass:
  "platform_system h = ''Windows'' \<or> platform_system h = ''Linux'' \<Longrightarrow> torch_importable h \<Longrightarrow>
   torch_cuda_is_available h \<Longrightarrow> torch_backends_cuda_is_built h \<Longrightarrow>
   torch_version_cuda h = Some v \<Longrightarrow> v \<noteq> [] \<Longrightarrow> cuda_home_of h = Some c \<Longrightarrow> c \<noteq> [] \<Longrightarrow>
   path_exists h (nvcc_path h c) \<Longrightarrow>
   verify_cuda_environment h = (True, version_check h v (nvcc_path h c) @ [msg_ok])"
  by (auto simp add: verify_cuda_environment_def Let_def)

lemma verify_true_cases:
  assumes "fst (verify_cuda_environment h)"
  shows "(platform_system h \<noteq> ''Windows'' \<and> platform_system h \<noteq> ''Linux'') \<or>
         ((platform_system h = ''Windows'' \<or> platform_system h = ''Linux'') \<and> torch_importable h)"
  using assms by (auto simp add: verify_cuda_environment_def Let_def split: if_splits)

lemma verify_false_platform:
  "\<not> fst (verify_cuda_environment h) \<Longrightarrow>
   platform_system h = ''Windows'' \<or> platform_system h = ''Linux''"
  by (auto simp add: verify_cuda_environment_def Let_def split: if_splits)

lemma cuda_home_of_popen [simp]: "cuda_home_of (h\<lparr>os_popen_read := q\<rparr>) = cuda_home_of h"
  by (simp add: cuda_home_of_def)

lemma nvcc_path_popen [simp]: "nvcc_path (h\<lparr>os_popen_read := q\<rparr>) c = nvcc_path h c"
  by (simp add: nvcc_path_def exe_postfix_def IS_WINDOWS_BUILD_def)

subsection \<open>The resolver, branch by branch\<close>

lemma ges_no_torch:
  "\<not> torch_importable h \<Longrightarrow> get_extensions_settings h = ([], Inl ImportError)"
  by (simp add: get_extensions_settings_def)

lemma ges_assert_fails:
  "torch_importable h \<Longrightarrow> \<not> fst (verify_cuda_environment h) \<Longrightarrow>
   get_extensions_settings h = (snd (verify_cuda_environment h), Inl (AssertionError assert_message))"
  by (simp add: get_extensions_settings_def split_beta)

lemma ges_windows:
  "torch_importable h \<Longrightarrow> fst (verify_cuda_environment h) \<Longrightarrow> platform_system h = ''Windows'' \<Longrightarrow>
   snd (get_extensions_settings h) =
     Inr (snd (get_windows_settings h
       (map (rel h) (path_glob h (SRC_CPU h) ''*.cpp'') @ map (rel h) (path_glob h (SRC_CUDA h) ''*.cu''))))"
  by (simp add: get_extensions_settings_def split_beta Let_def IS_WINDOWS_BUILD_def)

lemma ges_linux:
  "torch_importable h \<Longrightarrow> fst (verify_cuda_environment h) \<Longrightarrow> platform_system h = ''Linux'' \<Longrightarrow>
   snd (get_extensions_settings h) =
     Inr (snd (get_linux_settings h
       (map (rel h) (path_glob h (SRC_CPU h) ''*.cpp'') @ map (rel h) (path_glob h (SRC_CUDA h) ''*.cu''))))"
  by (simp add: get_extensions_settings_def split_beta Let_def IS_WINDOWS_BUILD_def)

lemma ges_darwin:
  "torch_importable h \<Longrightarrow> platform_system h = ''Darwin'' \<Longrightarrow>
   get_extensions_settings h =
     (msg_unsupported_platform ''Darwin'' # debug_print h,
      get_darwin_settings h (map (rel h) (path_glob h (SRC_CPU h) ''*.cpp'')))"
  by (simp add: get_extensions_settings_def verify_cuda_environment_def Let_def IS_WINDOWS_BUILD_def)

lemma ges_other:
  "torch_importable h \<Longrightarrow> platform_system h \<noteq> ''Windows'' \<Longrightarrow> platform_system h \<noteq> ''Linux'' \<Longrightarrow>
   platform_system h \<noteq> ''Darwin'' \<Longrightarrow>
   get_extensions_settings h =
     (msg_unsupported_platform (platform_system h) # debug_print h, Inr [])"
  by (simp add: get_extensions_settings_def verify_cuda_environment_def Let_def IS_WINDOWS_BUILD_def)

lemma comprehension_str_relative_to:
  "comprehension (\<lambda>p. str_relative_to p r) ps =
     (if ps = [] then Inr [] else Inl (AttributeError attribute_error_message))"
  by (cases ps) (simp_all add: str_relative_to_def)

lemma ges_verified_nonempty:
  assumes "platform_system h = ''Windows'' \<or> platform_system h = ''Linux''"
    and "fst (verify_cuda_environment h)"
  shows "\<exists>x. snd (get_extensions_settings h) = Inr [x] \<and> cls x = CUDAExtension"
proof -
  from assms verify_true_cases [of h] have t: "torch_importable h" by auto
  from assms(1) show ?thesis
  proof
    assume "platform_system h = ''Windows''"
    with t assms(2) show ?thesis
      by (simp add: ges_windows get_windows_settings_def Let_def)
  next
    assume "platform_system h = ''Linux''"
    with t assms(2) show ?thesis
      by (simp add: ges_linux get_linux_settings_def Let_def)
  qed
qed

section \<open>The claims\<close>

subsection \<open>C1: what the resolver raises when verification fails\<close>

text \<open>
  C1 as stated does not hold. On a Linux host whose torch reports no CUDA device the
  verifier returns \<open>False\<close> and the resolver raises an \<^verbatim>\<open>AssertionError\<close> whose
  message is the fixed text of the \<^verbatim>\<open>assert\<close> statement. That text does not contain
  "no accelerator device"; neither does the line the verifier printed, which is the only
  place where the reason appears.
\<close>

theorem abort_carries_reason_counterexample:
  "get_extensions_settings no_device_host =
     ([msg_cuda_unavailable], Inl (AssertionError assert_message)) \<and>
   verify_cuda_environment no_device_host = (False, [msg_cuda_unavailable]) \<and>
   \<not> py_in ''no accelerator device'' assert_message \<and>
   msg_cuda_unavailable =
     [S ''PyTorch reports that CUDA is NOT available on this system. Cannot build CUDA extension.''] \<and>
   \<not> py_in ''no accelerator device''
     ''PyTorch reports that CUDA is NOT available on this system. Cannot build CUDA extension.''"
proof -
  have v: "verify_cuda_environment no_device_host = (False, [msg_cuda_unavailable])"
    by (simp add: verify_cuda_environment_def no_device_host_def sample_host_def)
  have g: "get_extensions_settings no_device_host =
     ([msg_cuda_unavailable], Inl (AssertionError assert_message))"
    by (simp add: get_extensions_settings_def v) (simp add: no_device_host_def sample_host_def)
  have a: "\<not> py_in ''no accelerator device'' assert_message"
    unfolding assert_message_def by code_simp
  have m: "msg_cuda_unavailable =
     [S ''PyTorch reports that CUDA is NOT available on this system. Cannot build CUDA extension.'']"
    by (simp add: msg_cuda_unavailable_def)
  have p: "\<not> py_in ''no accelerator device''
     ''PyTorch reports that CUDA is NOT available on this system. Cannot build CUDA extension.''"
    by code_simp
  from v g a m p show ?thesis by blast
qed

text \<open>
  C1, amended. On Windows and Linux, when the verifier returns \<open>False\<close>, the resolver
  raises a single error and returns no extension: with torch importable it is the
  \<^verbatim>\<open>AssertionError\<close> with the fixed message, raised after the verifier's lines have
  been printed and nothing else; with torch not importable it is the \<^verbatim>\<open>ImportError\<close>
  of the resolver's own import, raised before the verifier runs. The reason is printed,
  not carried by the error: when torch is importable and reports no CUDA device, the
  printed line is the "CUDA is NOT available" message.
\<close>

theorem abort_with_fixed_message:
  "platform_system h \<in> {''Windows'', ''Linux''} \<and> \<not> fst (verify_cuda_environment h) \<longrightarrow>
     (torch_importable h \<longrightarrow>
        get_extensions_settings h =
          (snd (verify_cuda_environment h), Inl (AssertionError assert_message))) \<and>
     (\<not> torch_importable h \<longrightarrow> get_extensions_settings h = ([], Inl ImportError)) \<and>
     (torch_importable h \<and> \<not> torch_cuda_is_available h \<longrightarrow>
        snd (verify_cuda_environment h) = [msg_cuda_unavailable])"
  by (auto simp add: ges_no_torch ges_assert_fails verify_cuda_unavailable)

text \<open>
  The amended C1 on three hosts: Linux and Windows without a CUDA device, Linux without
  torch.
\<close>

theorem abort_with_fixed_message_witness:
  "get_extensions_settings no_device_host =
     ([msg_cuda_unavailable], Inl (AssertionError assert_message)) \<and>
   get_extensions_settings (windows_host\<lparr>torch_cuda_is_available := False\<rparr>) =
     ([msg_cuda_unavailable], Inl (AssertionError assert_message)) \<and>
   get_extensions_settings (sample_host\<lparr>torch_importable := False\<rparr>) = ([], Inl ImportError)"
proof -
  have v1: "verify_cuda_environment no_device_host = (False, [msg_cuda_unavailable])"
    by (simp add: verify_cuda_environment_def no_device_host_def sample_host_def)
  have v2: "verify_cuda_environment (windows_host\<lparr>torch_cuda_is_available := False\<rparr>) =
      (False, [msg_cuda_unavailable])"
    by (simp add: verify_cuda_environment_def host_defs)
  have v3: "verify_cuda_environment (sample_host\<lparr>torch_importable := False\<rparr>) =
      (False, [msg_no_torch])"
    by (simp add: verify_cuda_environment_def host_defs)
  from abort_with_fixed_message [of no_device_host] v1
  have 1: "get_extensions_settings no_device_host =
     ([msg_cuda_unavailable], Inl (AssertionError assert_message))"
    by (simp add: no_device_host_def sample_host_def)
  from abort_with_fixed_message [of "windows_host\<lparr>torch_cuda_is_available := False\<rparr>"] v2
  have 2: "get_extensions_settings (windows_host\<lparr>torch_cuda_is_available := False\<rparr>) =
     ([msg_cuda_unavailable], Inl (AssertionError assert_message))"
    by (simp add: host_defs)
  from abort_with_fixed_message [of "sample_host\<lparr>torch_importable := False\<rparr>"] v3
  have 3: "get_extensions_settings (sample_host\<lparr>torch_importable := False\<rparr>) = ([], Inl ImportError)"
    by (simp add: host_defs)
  from 1 2 3 show ?thesis by blast
qed

subsection \<open>C2: the macOS branch\<close>

text \<open>
  C2 as stated does not hold. On a macOS host with no CPU source file the resolver does
  run the verifier (the first line printed is the verifier's notice about the unsupported
  platform), and the extension it returns has an \<^verbatim>\<open>nvcc\<close> entry in its compile
  arguments. On the same host without torch the resolver raises \<^verbatim>\<open>ImportError\<close>
  instead of returning.
\<close>

theorem darwin_skips_verifier_counterexample:
  "get_extensions_settings darwin_host =
     (msg_unsupported_platform ''Darwin'' # debug_print darwin_host,
      Inr [\<lparr>cls = CppExtension,
            name = ''ha4detr._hungarian'',
            sources = [],
            include_dirs = [Dir ''/repo/ops/src/ha4detr''],
            library_dirs = None,
            extra_link_args = None,
            extra_compile_args =
              [(''cxx'', [''-D_GLIBCXX_USE_CXX11_ABI=1'', ''-std=c++17'']),
               (''nvcc'', [''-D_GLIBCXX_USE_CXX11_ABI=1'', ''-std=c++17''])]\<rparr>]) \<and>
   verify_cuda_environment darwin_host = (True, [msg_unsupported_platform ''Darwin'']) \<and>
   get_extensions_settings (darwin_host\<lparr>torch_importable := False\<rparr>) = ([], Inl ImportError)"
proof -
  have t: "torch_importable darwin_host" and p: "platform_system darwin_host = ''Darwin''"
    by (simp_all add: host_defs)
  have 1: "get_extensions_settings darwin_host =
     (msg_unsupported_platform ''Darwin'' # debug_print darwin_host,
      Inr [\<lparr>cls = CppExtension,
            name = ''ha4detr._hungarian'',
            sources = [],
            include_dirs = [Dir ''/repo/ops/src/ha4detr''],
            library_dirs = None,
            extra_link_args = None,
            extra_compile_args =
              [(''cxx'', [''-D_GLIBCXX_USE_CXX11_ABI=1'', ''-std=c++17'']),
               (''nvcc'', [''-D_GLIBCXX_USE_CXX11_ABI=1'', ''-std=c++17''])]\<rparr>])"
    unfolding ges_darwin [OF t p]
    by (simp add: get_darwin_settings_def host_defs SRC_BASE_def SRC_def ROOT_def)
  have 2: "verify_cuda_environment darwin_host = (True, [msg_unsupported_platform ''Darwin''])"
    by (simp add: verify_cuda_environment_def host_defs)
  have 3: "get_extensions_settings (darwin_host\<lparr>torch_importable := False\<rparr>) = ([], Inl ImportError)"
    by (simp add: get_extensions_settings_def)
  from 1 2 3 show ?thesis by blast
qed

text \<open>
  C2, amended. On macOS the resolver does call the verifier, which passes for every state
  of the runtime: it prints its notice and returns \<open>True\<close> without looking at torch.
  With torch importable the output of the resolver is the verifier's line followed by the
  debug lines; without torch the resolver raises \<^verbatim>\<open>ImportError\<close>. Whenever the
  resolver returns, it returns exactly one \<^verbatim>\<open>CppExtension\<close>, whose sources are
  computed from the CPU source list alone, whose include directories are the local one
  only, with no library directories and no linker arguments, and whose compile arguments
  have both a \<^verbatim>\<open>cxx\<close> and an \<^verbatim>\<open>nvcc\<close> entry.
\<close>

theorem darwin_settings:
  assumes "platform_system h = ''Darwin''"
  shows "verify_cuda_environment h = (True, [msg_unsupported_platform ''Darwin'']) \<and>
         (torch_importable h \<longrightarrow>
            fst (get_extensions_settings h) = snd (verify_cuda_environment h) @ debug_print h) \<and>
         (\<not> torch_importable h \<longrightarrow> get_extensions_settings h = ([], Inl ImportError)) \<and>
         (\<forall>exts. snd (get_extensions_settings h) = Inr exts \<longrightarrow>
            (\<exists>srcs.
               comprehension (\<lambda>p. str_relative_to p (ROOT h))
                 (map (rel h) (path_glob h (SRC_CPU h) ''*.cpp'')) = Inr srcs \<and>
               exts =
                 [\<lparr>cls = CppExtension,
                   name = ''ha4detr._hungarian'',
                   sources = srcs,
                   include_dirs = [Dir (path_str h (SRC_BASE h))],
                   library_dirs = None,
                   extra_link_args = None,
                   extra_compile_args =
                     [(''cxx'', [''-D_GLIBCXX_USE_CXX11_ABI=1'', ''-std=c++17'']),
                      (''nvcc'', [''-D_GLIBCXX_USE_CXX11_ABI=1'', ''-std=c++17''])]\<rparr>]))"
proof -
  have v: "verify_cuda_environment h = (True, [msg_unsupported_platform ''Darwin''])"
    using assms verify_unsupported [of h] by simp
  have o: "torch_importable h \<longrightarrow>
            fst (get_extensions_settings h) = snd (verify_cuda_environment h) @ debug_print h"
    using assms by (simp add: ges_darwin v)
  have n: "\<not> torch_importable h \<longrightarrow> get_extensions_settings h = ([], Inl ImportError)"
    by (simp add: ges_no_torch)
  have r: "\<forall>exts. snd (get_extensions_settings h) = Inr exts \<longrightarrow>
            (\<exists>srcs.
               comprehension (\<lambda>p. str_relative_to p (ROOT h))
                 (map (rel h) (path_glob h (SRC_CPU h) ''*.cpp'')) = Inr srcs \<and>
               exts =
                 [\<lparr>cls = CppExtension,
                   name = ''ha4detr._hungarian'',
                   sources = srcs,
                   include_dirs = [Dir (path_str h (SRC_BASE h))],
                   library_dirs = None,
                   extra_link_args = None,
                   extra_compile_args =
                     [(''cxx'', [''-D_GLIBCXX_USE_CXX11_ABI=1'', ''-std=c++17'']),
                      (''nvcc'', [''-D_GLIBCXX_USE_CXX11_ABI=1'', ''-std=c++17''])]\<rparr>])"
  proof (cases "torch_importable h")
    case True
    with assms show ?thesis
      by (auto simp add: ges_darwin get_darwin_settings_def split: sum.splits)
  next
    case False
    then show ?thesis by (simp add: ges_no_torch)
  qed
  from v o n r show ?thesis by blast
qed

text \<open>
  The amended C2 on the macOS host with no CPU source file.
\<close>

theorem darwin_settings_witness:
  "platform_system darwin_host = ''Darwin'' \<and>
   verify_cuda_environment darwin_host = (True, [msg_unsupported_platform ''Darwin'']) \<and>
   fst (get_extensions_settings darwin_host) =
     msg_unsupported_platform ''Darwin'' # debug_print darwin_host \<and>
   snd (get_extensions_settings darwin_host) =
     Inr [\<lparr>cls = CppExtension,
           name = ''ha4detr._hungarian'',
           sources = [],
           include_dirs = [Dir ''/repo/ops/src/ha4detr''],
           library_dirs = None,
           extra_link_args = None,
           extra_compile_args =
             [(''cxx'', [''-D_GLIBCXX_USE_CXX11_ABI=1'', ''-std=c++17'']),
              (''nvcc'', [''-D_GLIBCXX_USE_CXX11_ABI=1'', ''-std=c++17''])]\<rparr>]"
proof -
  have t: "torch_importable darwin_host" and p: "platform_system darwin_host = ''Darwin''"
    by (simp_all add: host_defs)
  have g: "\<exists>exts. snd (get_extensions_settings darwin_host) = Inr exts"
    unfolding ges_darwin [OF t p] by (simp add: get_darwin_settings_def host_defs)
  have c: "comprehension (\<lambda>p. str_relative_to p (ROOT darwin_host))
      (map (rel darwin_host) (path_glob darwin_host (SRC_CPU darwin_host) ''*.cpp'')) = Inr srcs
      \<longleftrightarrow> srcs = []" for srcs
    by (auto simp add: host_defs)
  have b: "path_str darwin_host (SRC_BASE darwin_host) = ''/repo/ops/src/ha4detr''"
    by (simp add: host_defs SRC_BASE_def SRC_def ROOT_def)
  from darwin_settings [OF p] t g show ?thesis
    unfolding c b by (auto simp add: p)
qed

subsection \<open>C3: no extension without a passed verification\<close>

text \<open>
  C3. Whenever the resolver returns a list of extensions, the verifier returned \<open>True\<close>
  on that host, and a \<^verbatim>\<open>CUDAExtension\<close> in the list means that the platform is Windows
  or Linux, where \<open>True\<close> is not the soft pass. When the verifier returns \<open>False\<close>
  the resolver raises and returns nothing.
\<close>

theorem accelerator_only_if_verified:
  "(snd (get_extensions_settings h) = Inr exts \<longrightarrow>
      fst (verify_cuda_environment h) \<and>
      (\<forall>x \<in> set exts. cls x = CUDAExtension \<longrightarrow>
         platform_system h \<in> {''Windows'', ''Linux''})) \<and>
   (\<not> fst (verify_cuda_environment h) \<longrightarrow> (\<exists>e. snd (get_extensions_settings h) = Inl e))"
proof (intro conjI impI ballI)
  assume "\<not> fst (verify_cuda_environment h)"
  then show "\<exists>e. snd (get_extensions_settings h) = Inl e"
    by (cases "torch_importable h") (simp_all add: ges_no_torch ges_assert_fails)
next
  assume r: "snd (get_extensions_settings h) = Inr exts"
  then have t: "torch_importable h"
    by (cases "torch_importable h") (simp_all add: ges_no_torch)
  with r show v: "fst (verify_cuda_environment h)"
    by (cases "fst (verify_cuda_environment h)") (simp_all add: ges_assert_fails)
  fix x
  assume x: "x \<in> set exts" "cls x = CUDAExtension"
  show "platform_system h \<in> {''Windows'', ''Linux''}"
  proof (rule ccontr)
    assume n: "platform_system h \<notin> {''Windows'', ''Linux''}"
    show False
    proof (cases "platform_system h = ''Darwin''")
      case True
      with t r x show False
        by (auto simp add: ges_darwin get_darwin_settings_def comprehension_str_relative_to
            split: if_splits)
    next
      case False
      with n t r x show False
        by (simp add: ges_other)
    qed
  qed
qed

text \<open>
  C3 on the sample Linux host, which returns one \<^verbatim>\<open>CUDAExtension\<close>, and on the same
  host without a CUDA device, where the resolver raises.
\<close>

theorem accelerator_only_if_verified_witness:
  "snd (get_extensions_settings sample_host) =
     Inr [\<lparr>cls = CUDAExtension,
           name = ''ha4detr._hungarian'',
           sources = [''src/ha4detr/cpu/hungarian.cpp'', ''src/ha4detr/cuda/hungarian.cu''],
           include_dirs = [Dir ''/repo/ops/src/ha4detr'',
                           Dirs [''/torch/include'', ''/torch/include/torch/csrc/api/include'']],
           library_dirs = Some [''/torch/lib'', ''/usr/local/cuda/lib64''],
           extra_link_args = Some [''-Wl,-rpath,$ORIGIN/../torch/lib''],
           extra_compile_args =
             [(''cxx'', [''-D_GLIBCXX_USE_CXX11_ABI=1'', ''-std=c++17'']),
              (''nvcc'', [''-D_GLIBCXX_USE_CXX11_ABI=1'', ''-std=c++17''])]\<rparr>] \<and>
   fst (verify_cuda_environment sample_host) \<and>
   platform_system sample_host \<in> {''Windows'', ''Linux''} \<and>
   \<not> fst (verify_cuda_environment (sample_host\<lparr>torch_cuda_is_available := False\<rparr>)) \<and>
   (\<exists>e. snd (get_extensions_settings (sample_host\<lparr>torch_cuda_is_available := False\<rparr>)) = Inl e)"
proof -
  let ?x = "\<lparr>cls = CUDAExtension,
           name = ''ha4detr._hungarian'',
           sources = [''src/ha4detr/cpu/hungarian.cpp'', ''src/ha4detr/cuda/hungarian.cu''],
           include_dirs = [Dir ''/repo/ops/src/ha4detr'',
                           Dirs [''/torch/include'', ''/torch/include/torch/csrc/api/include'']],
           library_dirs = Some [''/torch/lib'', ''/usr/local/cuda/lib64''],
           extra_link_args = Some [''-Wl,-rpath,$ORIGIN/../torch/lib''],
           extra_compile_args =
             [(''cxx'', [''-D_GLIBCXX_USE_CXX11_ABI=1'', ''-std=c++17'']),
              (''nvcc'', [''-D_GLIBCXX_USE_CXX11_ABI=1'', ''-std=c++17''])]\<rparr>"
  have v: "fst (verify_cuda_environment sample_host)"
    by (simp add: verify_cuda_environment_def sample_host_def cuda_home_of_def py_or_def
        nvcc_path_def exe_postfix_def IS_WINDOWS_BUILD_def Let_def)
  have r: "snd (get_extensions_settings sample_host) = Inr [?x]"
    using v by (simp add: ges_linux sample_host_def get_linux_settings_def Let_def rel_def
        SRC_CPU_def SRC_CUDA_def SRC_BASE_def SRC_def ROOT_def)
  have n: "\<not> fst (verify_cuda_environment (sample_host\<lparr>torch_cuda_is_available := False\<rparr>))"
    by (simp add: verify_cuda_environment_def sample_host_def)
  from accelerator_only_if_verified [of sample_host "[?x]"] r
  have 1: "fst (verify_cuda_environment sample_host) \<and>
      platform_system sample_host \<in> {''Windows'', ''Linux''}"
    by simp
  from accelerator_only_if_verified [of "sample_host\<lparr>torch_cuda_is_available := False\<rparr>" "[]"] n
  have 2: "\<exists>e. snd (get_extensions_settings (sample_host\<lparr>torch_cuda_is_available := False\<rparr>)) = Inl e"
    by blast
  from r 1 n 2 show ?thesis by blast
qed

subsection \<open>C4: platforms other than Linux, Windows and macOS\<close>

text \<open>
  C4 as stated does not hold: on a FreeBSD host where torch cannot be imported, the
  import at the top of the resolver raises \<^verbatim>\<open>ImportError\<close>.
\<close>

theorem other_platform_never_raises_counterexample:
  "platform_system (other_host\<lparr>torch_importable := False\<rparr>) \<notin> {''Linux'', ''Windows'', ''Darwin''} \<and>
   get_extensions_settings (other_host\<lparr>torch_importable := False\<rparr>) = ([], Inl ImportError)"
  by (simp add: get_extensions_settings_def other_host_def sample_host_def)

text \<open>
  C4, amended. On a platform other than Linux, Windows and macOS the resolver returns the
  empty list of extensions whenever torch can be imported, whatever else the runtime
  reports; when torch cannot be imported it raises \<^verbatim>\<open>ImportError\<close>.
\<close>

theorem other_platform_empty:
  "platform_system h \<notin> {''Linux'', ''Windows'', ''Darwin''} \<Longrightarrow>
   snd (get_extensions_settings h) = (if torch_importable h then Inr [] else Inl ImportError)"
  by (simp add: ges_other ges_no_torch)

text \<open>
  The amended C4 on a FreeBSD host with torch.
\<close>

theorem other_platform_empty_witness:
  "platform_system other_host \<notin> {''Linux'', ''Windows'', ''Darwin''} \<and>
   torch_importable other_host \<and>
   snd (get_extensions_settings other_host) = Inr []"
  using other_platform_empty [of other_host]
  by (simp add: other_host_def sample_host_def)

subsection \<open>C5: where the toolkit home comes from\<close>

text \<open>
  C5. The toolkit home is \<^verbatim>\<open>CUDA_HOME\<close> when that variable is truthy (set and not
  empty); otherwise \<^verbatim>\<open>CUDA_PATH\<close> when that one is truthy; otherwise torch's own
  \<^verbatim>\<open>CUDA_HOME\<close>. On a host that passes the checks before it: when none of the three
  is truthy the verifier returns \<open>False\<close> and prints that the toolkit home is not set;
  when the resolved home is truthy, the verdict is whether the compiler exists under that
  home.
\<close>

theorem cuda_home_precedence:
  "(truthy (os_environ h ''CUDA_HOME'') \<longrightarrow> cuda_home_of h = os_environ h ''CUDA_HOME'') \<and>
   (\<not> truthy (os_environ h ''CUDA_HOME'') \<and> truthy (os_environ h ''CUDA_PATH'') \<longrightarrow>
      cuda_home_of h = os_environ h ''CUDA_PATH'') \<and>
   (\<not> truthy (os_environ h ''CUDA_HOME'') \<and> \<not> truthy (os_environ h ''CUDA_PATH'') \<longrightarrow>
      cuda_home_of h = torch_CUDA_HOME h) \<and>
   (platform_system h \<in> {''Windows'', ''Linux''} \<and> torch_importable h \<and>
    torch_cuda_is_available h \<and> torch_backends_cuda_is_built h \<and>
    truthy (torch_version_cuda h) \<longrightarrow>
      (\<not> truthy (os_environ h ''CUDA_HOME'') \<and> \<not> truthy (os_environ h ''CUDA_PATH'') \<and>
       \<not> truthy (torch_CUDA_HOME h) \<longrightarrow>
         verify_cuda_environment h = (False, [msg_no_cuda_home])) \<and>
      (\<forall>c. cuda_home_of h = Some c \<and> c \<noteq> [] \<longrightarrow>
         fst (verify_cuda_environment h) = path_exists h (nvcc_path h c)))"
proof (intro conjI impI allI)
  fix c
  assume a: "platform_system h \<in> {''Windows'', ''Linux''} \<and> torch_importable h \<and>
    torch_cuda_is_available h \<and> torch_backends_cuda_is_built h \<and> truthy (torch_version_cuda h)"
    and c: "cuda_home_of h = Some c \<and> c \<noteq> []"
  from a obtain v where v: "torch_version_cuda h = Some v" "v \<noteq> []"
    by (auto simp add: truthy_iff)
  show "fst (verify_cuda_environment h) = path_exists h (nvcc_path h c)"
  proof (cases "path_exists h (nvcc_path h c)")
    case True
    with a c v show ?thesis by (simp add: verify_pass)
  next
    case False
    with a c show ?thesis by (simp add: verify_nvcc_missing)
  qed
next
  assume a: "platform_system h \<in> {''Windows'', ''Linux''} \<and> torch_importable h \<and>
    torch_cuda_is_available h \<and> torch_backends_cuda_is_built h \<and> truthy (torch_version_cuda h)"
    and n: "\<not> truthy (os_environ h ''CUDA_HOME'') \<and> \<not> truthy (os_environ h ''CUDA_PATH'') \<and>
       \<not> truthy (torch_CUDA_HOME h)"
  from n have "\<not> truthy (cuda_home_of h)"
    by (simp add: cuda_home_of_def py_or_def)
  with a show "verify_cuda_environment h = (False, [msg_no_cuda_home])"
    by (simp add: verify_no_cuda_home)
qed (simp_all add: cuda_home_of_def py_or_def)

text \<open>
  C5 on five hosts: both variables set; \<^verbatim>\<open>CUDA_HOME\<close> empty and \<^verbatim>\<open>CUDA_PATH\<close> set;
  neither set; neither set and no default in torch; and, for the last part, a host whose
  compiler is under torch's default but not under the \<^verbatim>\<open>CUDA_HOME\<close> that wins.
\<close>

theorem cuda_home_precedence_witness:
  "cuda_home_of env_host = Some ''/opt/cuda-home'' \<and>
   cuda_home_of env_path_host = Some ''/opt/cuda-path'' \<and>
   cuda_home_of sample_host = Some ''/usr/local/cuda'' \<and>
   verify_cuda_environment (sample_host\<lparr>torch_CUDA_HOME := None\<rparr>) = (False, [msg_no_cuda_home]) \<and>
   fst (verify_cuda_environment sample_host) \<and>
   \<not> fst (verify_cuda_environment env_host)"
  using cuda_home_precedence [of env_host] cuda_home_precedence [of env_path_host]
    cuda_home_precedence [of sample_host]
    cuda_home_precedence [of "sample_host\<lparr>torch_CUDA_HOME := None\<rparr>"]
  by (simp add: sample_host_def env_host_def env_path_host_def nvcc_path_def exe_postfix_def
        IS_WINDOWS_BUILD_def cuda_home_of_def py_or_def)

subsection \<open>C6: the version comparison only warns\<close>

text \<open>
  C6. On a host that passes the first seven checks the verifier returns \<open>True\<close>,
  whatever \<^verbatim>\<open>nvcc --version\<close> answers: replacing the answer by any other leaves the
  verdict \<open>True\<close>. When torch's major version does not occur in the answer, the warning
  lines are printed and the verdict is still \<open>True\<close>. When the query raises, its output
  counts as empty and the verifier behaves as on the empty answer. The resolver then
  returns a list with one extension.
\<close>

theorem version_check_never_fails:
  assumes "platform_system h \<in> {''Windows'', ''Linux''}"
    and "torch_importable h" and "torch_cuda_is_available h"
    and "torch_backends_cuda_is_built h"
    and "torch_version_cuda h = Some v" and "v \<noteq> []"
    and "cuda_home_of h = Some c" and "c \<noteq> []"
    and "path_exists h (nvcc_path h c)"
  shows "fst (verify_cuda_environment h) \<and>
         (\<forall>q. fst (verify_cuda_environment (h\<lparr>os_popen_read := q\<rparr>))) \<and>
         (\<not> py_in (split_dot_first v) (system_nvcc_output_of h (nvcc_path h c)) \<longrightarrow>
            verify_cuda_environment h =
              (True, msg_version_mismatch v (system_nvcc_output_of h (nvcc_path h c)) @ [msg_ok])) \<and>
         (os_popen_read h ([CHR 0x22] @ path_str h (nvcc_path h c) @ [CHR 0x22] @ '' --version'') = None \<longrightarrow>
            system_nvcc_output_of h (nvcc_path h c) = [] \<and>
            verify_cuda_environment h =
              verify_cuda_environment (h\<lparr>os_popen_read := (\<lambda>cmd. Some [])\<rparr>)) \<and>
         (\<exists>x. snd (get_extensions_settings h) = Inr [x])"
proof -
  from assms have p: "platform_system h = ''Windows'' \<or> platform_system h = ''Linux''"
    by simp
  have pass: "verify_cuda_environment h = (True, version_check h v (nvcc_path h c) @ [msg_ok])"
    using p assms(2-9) by (rule verify_pass)
  have pass_q: "verify_cuda_environment (h\<lparr>os_popen_read := q\<rparr>) =
      (True, version_check (h\<lparr>os_popen_read := q\<rparr>) v (nvcc_path h c) @ [msg_ok])" for q
    using verify_pass [of "h\<lparr>os_popen_read := q\<rparr>" v c] p assms(2-9) by simp
  have 1: "fst (verify_cuda_environment h)"
    by (simp add: pass)
  have 2: "\<forall>q. fst (verify_cuda_environment (h\<lparr>os_popen_read := q\<rparr>))"
    by (simp add: pass_q)
  have 3: "\<not> py_in (split_dot_first v) (system_nvcc_output_of h (nvcc_path h c)) \<longrightarrow>
            verify_cuda_environment h =
              (True, msg_version_mismatch v (system_nvcc_output_of h (nvcc_path h c)) @ [msg_ok])"
    by (simp add: pass version_check_def Let_def)
  have 4: "os_popen_read h ([CHR 0x22] @ path_str h (nvcc_path h c) @ [CHR 0x22] @ '' --version'') = None \<longrightarrow>
            system_nvcc_output_of h (nvcc_path h c) = [] \<and>
            verify_cuda_environment h =
              verify_cuda_environment (h\<lparr>os_popen_read := (\<lambda>cmd. Some [])\<rparr>)"
    by (simp add: pass pass_q version_check_def system_nvcc_output_of_def lower_def)
  have 5: "\<exists>x. snd (get_extensions_settings h) = Inr [x]"
    using ges_verified_nonempty [OF p 1] by blast
  from 1 2 3 4 5 show ?thesis by blast
qed

text \<open>
  C6 on the sample host, where torch reports 12.1 and the compiler 11.8, and on the same
  host with a version query that raises.
\<close>

theorem version_check_never_fails_witness:
  "verify_cuda_environment sample_host =
     (True,
      msg_version_mismatch ''12.1'' ''cuda compilation tools, release 11.8, v11.8.89'' @ [msg_ok]) \<and>
   verify_cuda_environment (sample_host\<lparr>os_popen_read := (\<lambda>cmd. None)\<rparr>) =
     (True, msg_version_mismatch ''12.1'' [] @ [msg_ok]) \<and>
   (\<exists>x. snd (get_extensions_settings sample_host) = Inr [x])"
proof -
  have lo: "lower ''Cuda compilation tools, release 11.8, V11.8.89''
      = ''cuda compilation tools, release 11.8, v11.8.89''"
    by code_simp
  have a: "verify_cuda_environment sample_host =
     (True,
      msg_version_mismatch ''12.1'' ''cuda compilation tools, release 11.8, v11.8.89'' @ [msg_ok])"
    and c: "\<exists>x. snd (get_extensions_settings sample_host) = Inr [x]"
    using version_check_never_fails [of sample_host "''12.1''" "''/usr/local/cuda''"]
    by (simp_all add: sample_host_def cuda_home_of_def py_or_def nvcc_path_def exe_postfix_def
        IS_WINDOWS_BUILD_def system_nvcc_output_of_def split_dot_first_def lo)
  have b: "verify_cuda_environment (sample_host\<lparr>os_popen_read := (\<lambda>cmd. None)\<rparr>) =
     (True, msg_version_mismatch ''12.1'' [] @ [msg_ok])"
    using version_check_never_fails
      [of "sample_host\<lparr>os_popen_read := (\<lambda>cmd. None)\<rparr>" "''12.1''" "''/usr/local/cuda''"]
    by (simp add: sample_host_def cuda_home_of_def py_or_def nvcc_path_def exe_postfix_def
        IS_WINDOWS_BUILD_def system_nvcc_output_of_def split_dot_first_def)
  from a b c show ?thesis by blast
qed

subsection \<open>C7: the compiler is missing\<close>

text \<open>
  C7. On Windows and Linux, when the first five checks pass and the toolkit home resolves
  to a non-empty path under which \<^verbatim>\<open>bin/nvcc\<close> (\<^verbatim>\<open>bin/nvcc.exe\<close> on Windows) does
  not exist, the verifier returns \<open>False\<close> and prints that path in its first line.
\<close>

theorem missing_compiler_fails:
  assumes "platform_system h \<in> {''Windows'', ''Linux''}"
    and "torch_importable h" and "torch_cuda_is_available h"
    and "torch_backends_cuda_is_built h" and "truthy (torch_version_cuda h)"
    and "cuda_home_of h = Some c" and "c \<noteq> []"
    and "\<not> path_exists h (nvcc_path h c)"
  shows "verify_cuda_environment h =
           (False,
            [[S (''nvcc not found at expected path: '' @ path_str h (nvcc_path h c))],
             [S ''Your CUDA installation is incomplete or incorrect.'']]) \<and>
         nvcc_path h c =
           path_join h (path_join h (Path_of h c) ''bin'')
             (if platform_system h = ''Windows'' then ''nvcc.exe'' else ''nvcc'')"
proof
  from assms have "verify_cuda_environment h =
      (False, msg_nvcc_not_found (path_str h (nvcc_path h c)))"
    by (intro verify_nvcc_missing) simp_all
  then show "verify_cuda_environment h =
           (False,
            [[S (''nvcc not found at expected path: '' @ path_str h (nvcc_path h c))],
             [S ''Your CUDA installation is incomplete or incorrect.'']])"
    by (simp add: msg_nvcc_not_found_def)
  show "nvcc_path h c =
           path_join h (path_join h (Path_of h c) ''bin'')
             (if platform_system h = ''Windows'' then ''nvcc.exe'' else ''nvcc'')"
    by (simp add: nvcc_path_def exe_postfix_def IS_WINDOWS_BUILD_def)
qed

text \<open>
  C7 on a Linux host whose \<^verbatim>\<open>CUDA_HOME\<close> points to a directory without compiler, and
  on a Windows host with no compiler at all.
\<close>

theorem missing_compiler_fails_witness:
  "verify_cuda_environment env_host =
     (False,
      [[S ''nvcc not found at expected path: /opt/cuda-home/bin/nvcc''],
       [S ''Your CUDA installation is incomplete or incorrect.'']]) \<and>
   verify_cuda_environment (windows_host\<lparr>path_exists := (\<lambda>p. False)\<rparr>) =
     (False,
      [[S ''nvcc not found at expected path: /usr/local/cuda/bin/nvcc.exe''],
       [S ''Your CUDA installation is incomplete or incorrect.'']])"
  using missing_compiler_fails [of env_host "''/opt/cuda-home''"]
    missing_compiler_fails
      [of "windows_host\<lparr>path_exists := (\<lambda>p. False)\<rparr>" "''/usr/local/cuda''"]
  by (simp add: host_defs env_host_def nvcc_path_def exe_postfix_def
        IS_WINDOWS_BUILD_def cuda_home_of_def py_or_def)

subsection \<open>C8: the order of the checks\<close>

text \<open>
  C8. On a platform other than Windows and Linux the verifier returns \<open>True\<close> with its
  notice, whatever the runtime is. On Windows and Linux it fails on the first of these
  that does not hold, with the message of that check and nothing else printed: torch
  importable, CUDA device available, torch built with CUDA, CUDA version not empty. The
  four messages are different from each other.
\<close>

theorem verify_checks_in_order:
  "(platform_system h \<notin> {''Windows'', ''Linux''} \<longrightarrow>
      verify_cuda_environment h = (True, [msg_unsupported_platform (platform_system h)])) \<and>
   (platform_system h \<in> {''Windows'', ''Linux''} \<longrightarrow>
      (\<not> torch_importable h \<longrightarrow> verify_cuda_environment h = (False, [msg_no_torch])) \<and>
      (torch_importable h \<and> \<not> torch_cuda_is_available h \<longrightarrow>
         verify_cuda_environment h = (False, [msg_cuda_unavailable])) \<and>
      (torch_importable h \<and> torch_cuda_is_available h \<and> \<not> torch_backends_cuda_is_built h \<longrightarrow>
         verify_cuda_environment h = (False, [msg_not_built])) \<and>
      (torch_importable h \<and> torch_cuda_is_available h \<and> torch_backends_cuda_is_built h \<and>
       \<not> truthy (torch_version_cuda h) \<longrightarrow>
         verify_cuda_environment h = (False, [msg_no_version]))) \<and>
   distinct [msg_no_torch, msg_cuda_unavailable, msg_not_built, msg_no_version]"
proof (intro conjI impI)
  show "distinct [msg_no_torch, msg_cuda_unavailable, msg_not_built, msg_no_version]"
    by (simp add: msg_no_torch_def msg_cuda_unavailable_def msg_not_built_def msg_no_version_def)
qed (simp_all add: verify_unsupported verify_no_torch verify_cuda_unavailable verify_not_built
       verify_no_version)

text \<open>
  C8 on six hosts. Each of the failing ones breaks two checks at once, and the verifier
  reports the earlier one.
\<close>

theorem verify_checks_in_order_witness:
  "verify_cuda_environment darwin_host = (True, [msg_unsupported_platform ''Darwin'']) \<and>
   verify_cuda_environment
     (darwin_host\<lparr>torch_importable := False, torch_cuda_is_available := False\<rparr>)
     = (True, [msg_unsupported_platform ''Darwin'']) \<and>
   verify_cuda_environment
     (sample_host\<lparr>torch_importable := False, torch_cuda_is_available := False\<rparr>)
     = (False, [msg_no_torch]) \<and>
   verify_cuda_environment
     (sample_host\<lparr>torch_cuda_is_available := False, torch_backends_cuda_is_built := False\<rparr>)
     = (False, [msg_cuda_unavailable]) \<and>
   verify_cuda_environment
     (windows_host\<lparr>torch_backends_cuda_is_built := False, torch_version_cuda := None\<rparr>)
     = (False, [msg_not_built]) \<and>
   verify_cuda_environment (sample_host\<lparr>torch_version_cuda := Some []\<rparr>)
     = (False, [msg_no_version])"
  using verify_checks_in_order [of darwin_host]
    verify_checks_in_order
      [of "darwin_host\<lparr>torch_importable := False, torch_cuda_is_available := False\<rparr>"]
    verify_checks_in_order
      [of "sample_host\<lparr>torch_importable := False, torch_cuda_is_available := False\<rparr>"]
    verify_checks_in_order
      [of "sample_host\<lparr>torch_cuda_is_available := False, torch_backends_cuda_is_built := False\<rparr>"]
    verify_checks_in_order
      [of "windows_host\<lparr>torch_backends_cuda_is_built := False, torch_version_cuda := None\<rparr>"]
    verify_checks_in_order [of "sample_host\<lparr>torch_version_cuda := Some []\<rparr>"]
  by (simp add: host_defs)

subsection \<open>C9: the macOS branch raises on any CPU source\<close>

text \<open>
  C9. On macOS, when the CPU source directory has at least one \<^verbatim>\<open>.cpp\<close> file, the
  resolver raises instead of returning. Where its import of torch succeeds, so that the
  macOS branch is reached, the exception is the \<^verbatim>\<open>AttributeError\<close> of
  \<^verbatim>\<open>relative_to\<close> looked up on a string. With no CPU source file the branch returns
  one extension, with no sources; and whenever the resolver returns on macOS, there was no
  CPU source file and the extension has no sources.
\<close>

theorem darwin_relative_to_raises:
  assumes "platform_system h = ''Darwin''"
  shows "(path_glob h (SRC_CPU h) ''*.cpp'' \<noteq> [] \<longrightarrow>
            (\<exists>e. snd (get_extensions_settings h) = Inl e) \<and>
            (torch_importable h \<longrightarrow>
               snd (get_extensions_settings h) = Inl (AttributeError attribute_error_message))) \<and>
         (path_glob h (SRC_CPU h) ''*.cpp'' = [] \<and> torch_importable h \<longrightarrow>
            (\<exists>x. snd (get_extensions_settings h) = Inr [x] \<and> sources x = [])) \<and>
         (\<forall>exts. snd (get_extensions_settings h) = Inr exts \<longrightarrow>
            path_glob h (SRC_CPU h) ''*.cpp'' = [] \<and> (\<exists>x. exts = [x] \<and> sources x = []))"
proof (cases "torch_importable h")
  case True
  with assms show ?thesis
    by (auto simp add: ges_darwin get_darwin_settings_def comprehension_str_relative_to)
next
  case False
  then show ?thesis by (simp add: ges_no_torch)
qed

text \<open>
  C9 on the macOS host with one CPU source file and on the one with none.
\<close>

theorem darwin_relative_to_raises_witness:
  "platform_system darwin_cpp_host = ''Darwin'' \<and>
   path_glob darwin_cpp_host (SRC_CPU darwin_cpp_host) ''*.cpp''
     = [''/repo/ops/src/ha4detr/cpu/hungarian.cpp''] \<and>
   snd (get_extensions_settings darwin_cpp_host) = Inl (AttributeError attribute_error_message) \<and>
   attribute_error_message
     = [CHR 0x27] @ ''str'' @ [CHR 0x27] @ '' object has no attribute ''
       @ [CHR 0x27] @ ''relative_to'' @ [CHR 0x27] \<and>
   path_glob darwin_host (SRC_CPU darwin_host) ''*.cpp'' = [] \<and>
   (\<exists>x. snd (get_extensions_settings darwin_host) = Inr [x] \<and> sources x = [])"
proof -
  have p1: "platform_system darwin_cpp_host = ''Darwin''"
    and g1: "path_glob darwin_cpp_host (SRC_CPU darwin_cpp_host) ''*.cpp''
       = [''/repo/ops/src/ha4detr/cpu/hungarian.cpp'']"
    and t1: "torch_importable darwin_cpp_host"
    by (simp_all add: darwin_cpp_host_def sample_host_def SRC_CPU_def SRC_BASE_def SRC_def ROOT_def)
  have p2: "platform_system darwin_host = ''Darwin''"
    and g2: "path_glob darwin_host (SRC_CPU darwin_host) ''*.cpp'' = []"
    and t2: "torch_importable darwin_host"
    by (simp_all add: host_defs)
  from darwin_relative_to_raises [OF p1] g1 t1
  have 1: "snd (get_extensions_settings darwin_cpp_host) = Inl (AttributeError attribute_error_message)"
    by simp
  from darwin_relative_to_raises [OF p2] g2 t2
  have 2: "\<exists>x. snd (get_extensions_settings darwin_host) = Inr [x] \<and> sources x = []"
    by blast
  have m: "attribute_error_message
     = [CHR 0x27] @ ''str'' @ [CHR 0x27] @ '' object has no attribute ''
       @ [CHR 0x27] @ ''relative_to'' @ [CHR 0x27]"
    by (simp add: attribute_error_message_def)
  from p1 g1 1 m g2 2 show ?thesis by blast
qed

subsection \<open>C10: the shape of the include directories\<close>

text \<open>
  C10. On a Linux host that passes verification the extension's include directories are
  a list of two elements, the local directory and the whole list of torch's include paths
  as one element. On a Windows host that passes verification they are one flat list: the
  resolved local directory followed by torch's include paths.
\<close>

theorem include_dirs_shapes:
  "(platform_system h = ''Linux'' \<and> fst (verify_cuda_environment h) \<longrightarrow>
      (\<exists>x. snd (get_extensions_settings h) = Inr [x] \<and>
           include_dirs x = [Dir (path_str h (SRC_BASE h)), Dirs (include_paths h)])) \<and>
   (platform_system h = ''Windows'' \<and> fst (verify_cuda_environment h) \<longrightarrow>
      (\<exists>x. snd (get_extensions_settings h) = Inr [x] \<and>
           include_dirs x =
             Dir (path_str h (path_resolve h (SRC_BASE h))) # map Dir (include_paths h)))"
proof (intro conjI impI)
  assume a: "platform_system h = ''Linux'' \<and> fst (verify_cuda_environment h)"
  with verify_true_cases [of h] have "torch_importable h" by auto
  with a show "\<exists>x. snd (get_extensions_settings h) = Inr [x] \<and>
           include_dirs x = [Dir (path_str h (SRC_BASE h)), Dirs (include_paths h)]"
    by (simp add: ges_linux get_linux_settings_def Let_def)
next
  assume a: "platform_system h = ''Windows'' \<and> fst (verify_cuda_environment h)"
  with verify_true_cases [of h] have "torch_importable h" by auto
  with a show "\<exists>x. snd (get_extensions_settings h) = Inr [x] \<and>
           include_dirs x =
             Dir (path_str h (path_resolve h (SRC_BASE h))) # map Dir (include_paths h)"
    by (simp add: ges_windows get_windows_settings_def Let_def)
qed

text \<open>
  C10 on the sample Linux host and on the Windows host.
\<close>

theorem include_dirs_shapes_witness:
  "(\<exists>x. snd (get_extensions_settings sample_host) = Inr [x] \<and>
        include_dirs x =
          [Dir ''/repo/ops/src/ha4detr'',
           Dirs [''/torch/include'', ''/torch/include/torch/csrc/api/include'']]) \<and>
   (\<exists>x. snd (get_extensions_settings windows_host) = Inr [x] \<and>
        include_dirs x =
          [Dir ''/repo/ops/src/ha4detr'',
           Dir ''/torch/include'', Dir ''/torch/include/torch/csrc/api/include''])"
proof -
  have v: "fst (verify_cuda_environment sample_host)"
    by (simp add: verify_cuda_environment_def sample_host_def cuda_home_of_def py_or_def
        nvcc_path_def exe_postfix_def IS_WINDOWS_BUILD_def Let_def)
  have w: "fst (verify_cuda_environment windows_host)"
    by (simp add: verify_cuda_environment_def host_defs cuda_home_of_def py_or_def
        nvcc_path_def exe_postfix_def IS_WINDOWS_BUILD_def Let_def)
  from include_dirs_shapes [of sample_host] v
  have 1: "\<exists>x. snd (get_extensions_settings sample_host) = Inr [x] \<and>
        include_dirs x =
          [Dir ''/repo/ops/src/ha4detr'',
           Dirs [''/torch/include'', ''/torch/include/torch/csrc/api/include'']]"
    by (simp add: sample_host_def SRC_BASE_def SRC_def ROOT_def)
  from include_dirs_shapes [of windows_host] w
  have 2: "\<exists>x. snd (get_extensions_settings windows_host) = Inr [x] \<and>
        include_dirs x =
          [Dir ''/repo/ops/src/ha4detr'',
           Dir ''/torch/include'', Dir ''/torch/include/torch/csrc/api/include'']"
    by (simp add: host_defs SRC_BASE_def SRC_def ROOT_def)
  from 1 2 show ?thesis by blast
qed

end
